theory Spec2Isabelle
  imports Complex_Main "HOL-Library.AList"
begin

section \<open>Python values\<close>

text \<open>
  The dictionaries of the source are insertion-ordered and hold values of mixed type.
  A dictionary is an association list with distinct keys in insertion order
  (\<open>map_of\<close> reads it, \<open>AList.update\<close> writes it and keeps the position of a key
  already present). Python's \<open>float\<close> is taken as an exact rational: the constants
  \<open>0.15\<close>, \<open>0.08\<close> and the confidences are the decimal fractions the source writes.
\<close>

datatype pyval =
    PyNone
  | PyBool bool
  | PyNum rat
  | PyStr string
  | PyList "pyval list"
  | PyDict "(string \<times> pyval) list"

type_synonym pydict = "(string \<times> pyval) list"

text \<open>Truth value testing, as \<open>if x:\<close> and \<open>or\<close> do it.\<close>

fun truthy :: "pyval \<Rightarrow> bool" where
  "truthy PyNone = False"
| "truthy (PyBool b) = b"
| "truthy (PyNum n) = (n \<noteq> 0)"
| "truthy (PyStr s) = (s \<noteq> [])"
| "truthy (PyList xs) = (xs \<noteq> [])"
| "truthy (PyDict d) = (d \<noteq> [])"

text \<open>\<open>d.get(k)\<close>: the value, or \<open>None\<close> when the key is missing.\<close>

definition dict_get :: "pydict \<Rightarrow> string \<Rightarrow> pyval" where
  "dict_get d k = (case map_of d k of None \<Rightarrow> PyNone | Some v \<Rightarrow> v)"

text \<open>\<open>d.get(k, dflt)\<close>.\<close>

definition dict_get_default :: "pydict \<Rightarrow> string \<Rightarrow> pyval \<Rightarrow> pyval" where
  "dict_get_default d k dflt = (case map_of d k of None \<Rightarrow> dflt | Some v \<Rightarrow> v)"

section \<open>Strings\<close>

text \<open>
  \<open>str.lower()\<close> on the ASCII letters; every other character is left as it is.
\<close>

definition lower_char :: "char \<Rightarrow> char" where
  "lower_char c =
    (case map_of (zip ''ABCDEFGHIJKLMNOPQRSTUVWXYZ'' ''abcdefghijklmnopqrstuvwxyz'') c of
       None \<Rightarrow> c
     | Some l \<Rightarrow> l)"

definition lower :: "string \<Rightarrow> string" where
  "lower s = map lower_char s"

fun starts_with :: "string \<Rightarrow> string \<Rightarrow> bool" where
  "starts_with s [] = True"
| "starts_with [] (p # ps) = False"
| "starts_with (c # cs) (p # ps) = (c = p \<and> starts_with cs ps)"

text \<open>\<open>contains s p\<close> is Python's \<open>p in s\<close> on strings: \<open>p\<close> occurs in \<open>s\<close> as a substring.\<close>

fun contains :: "string \<Rightarrow> string \<Rightarrow> bool" where
  "contains [] p = (p = [])"
| "contains (c # cs) p = (starts_with (c # cs) p \<or> contains cs p)"

text \<open>\<open>any(pattern in s for pattern in patterns)\<close>.\<close>

definition any_in :: "string list \<Rightarrow> string \<Rightarrow> bool" where
  "any_in patterns s = list_ex (contains s) patterns"

text \<open>
  The loop \<open>for key, patterns in table.items(): if any(...): ...; break\<close>: the first key,
  in the order of declaration, one of whose patterns occurs in the text.
\<close>

fun first_match :: "(string \<times> string list) list \<Rightarrow> string \<Rightarrow> string option" where
  "first_match [] s = None"
| "first_match ((k, patterns) # rest) s =
     (if any_in patterns s then Some k else first_match rest s)"

section \<open>Pricing\<close>

text \<open>The dictionary both pricing functions return (without \<open>payment_options\<close>).\<close>

record pricing =
  base_cost :: rat
  addon_cost :: rat
  subtotal :: rat
  bundle_discount :: rat
  urgency_surcharge :: rat
  tax :: rat
  total :: rat
  savings :: rat

text \<open>\<open>{"emergency": 75, "high": 25}.get(urgency, 0)\<close>, the same in both files.\<close>

definition urgency_surcharges :: "(string \<times> rat) list" where
  "urgency_surcharges = [(''emergency'', 75), (''high'', 25)]"

definition surcharge_of :: "string \<Rightarrow> rat" where
  "surcharge_of urgency = (case map_of urgency_surcharges urgency of None \<Rightarrow> 0 | Some v \<Rightarrow> v)"

subsection \<open>\<open>SimpleAgentDemo.calculate_pricing\<close> (simple_demo.py)\<close>

definition base_prices :: "(string \<times> rat) list" where
  "base_prices = [(''ac_repair'', 150), (''heating'', 175), (''plumbing'', 125), (''electrical'', 200)]"

definition addon_prices :: "(string \<times> rat) list" where
  "addon_prices = [(''thermostat_install'', 200), (''filter_replacement'', 25), (''duct_cleaning'', 300)]"

definition addon_price :: "string \<Rightarrow> rat" where
  "addon_price service = (case map_of addon_prices service of None \<Rightarrow> 0 | Some v \<Rightarrow> v)"

definition calculate_pricing :: "string \<Rightarrow> string list \<Rightarrow> string \<Rightarrow> pricing" where
  "calculate_pricing service_type additional_services urgency =
    (let base = (case map_of base_prices service_type of None \<Rightarrow> 150 | Some v \<Rightarrow> v);
         addon = sum_list (map addon_price additional_services);
         sub = base + addon;
         discount_rate = (if additional_services \<noteq> [] then 15 / 100 else 0);
         discount_amount = sub * discount_rate;
         surcharge = surcharge_of urgency;
         pre_tax = sub - discount_amount + surcharge;
         tx = pre_tax * (8 / 100);
         final_total = pre_tax + tx
     in \<lparr> base_cost = base, addon_cost = addon, subtotal = sub,
          bundle_discount = discount_amount, urgency_surcharge = surcharge,
          tax = tx, total = final_total, savings = discount_amount \<rparr>)"

subsection \<open>\<open>PricingService.calculate_pricing\<close> (langchain_agent_system.py)\<close>

text \<open>
  Here a base price is a dictionary of a diagnostic and a repair fee, summed over its
  values, and \<open>additional_services\<close> defaults to \<open>None\<close>.
\<close>

definition service_base_prices :: "(string \<times> (string \<times> rat) list) list" where
  "service_base_prices =
    [(''ac_repair'', [(''diagnostic'', 75), (''repair'', 150)]),
     (''heating'', [(''diagnostic'', 75), (''repair'', 175)]),
     (''plumbing'', [(''diagnostic'', 50), (''repair'', 125)]),
     (''electrical'', [(''diagnostic'', 100), (''repair'', 200)])]"

definition service_addon_prices :: "(string \<times> rat) list" where
  "service_addon_prices =
    [(''thermostat_install'', 200), (''filter_replacement'', 25),
     (''duct_cleaning'', 300), (''maintenance_plan'', 150)]"

definition service_addon_price :: "string \<Rightarrow> rat" where
  "service_addon_price service =
    (case map_of service_addon_prices service of None \<Rightarrow> 0 | Some v \<Rightarrow> v)"

definition service_calculate_pricing :: "string \<Rightarrow> string list option \<Rightarrow> string \<Rightarrow> pricing" where
  "service_calculate_pricing service_type additional_services urgency =
    (let fees = (case map_of service_base_prices service_type of
                   None \<Rightarrow> [(''diagnostic'', 75), (''repair'', 150)]
                 | Some d \<Rightarrow> d);
         base = sum_list (map snd fees);
         addon = sum_list (map service_addon_price
                   (case additional_services of None \<Rightarrow> [] | Some xs \<Rightarrow> xs));
         sub = base + addon;
         discount_rate =
           (case additional_services of
              None \<Rightarrow> 0
            | Some xs \<Rightarrow> if xs \<noteq> [] \<and> length xs > 0 then 15 / 100 else 0);
         discount_amount = sub * discount_rate;
         surcharge = surcharge_of urgency;
         pre_tax = sub - discount_amount + surcharge;
         tx = pre_tax * (8 / 100);
         final_total = pre_tax + tx
     in \<lparr> base_cost = base, addon_cost = addon, subtotal = sub,
          bundle_discount = discount_amount, urgency_surcharge = surcharge,
          tax = tx, total = final_total, savings = discount_amount \<rparr>)"


section \<open>Entity extraction and planning (agent_orchestrator.py)\<close>

subsection \<open>\<open>AgentOrchestrator._extract_entities_from_message\<close>\<close>

definition service_patterns :: "(string \<times> string list) list" where
  "service_patterns =
    [(''ac_repair'', [''ac'', ''air conditioning'', ''cooling'', ''hvac'', ''conditioner'']),
     (''heating'', [''heat'', ''heating'', ''furnace'', ''boiler'', ''warm'']),
     (''plumbing'', [''plumb'', ''water'', ''leak'', ''pipe'', ''drain'', ''toilet'']),
     (''electrical'', [''electric'', ''power'', ''outlet'', ''wiring'', ''lights''])]"

definition urgency_patterns :: "(string \<times> string list) list" where
  "urgency_patterns =
    [(''emergency'', [''emergency'', ''urgent'', ''asap'', ''immediately'', ''broken'',
                      ''not working'', ''dead'']),
     (''high'', [''this week'', ''soon'', ''quickly'', ''today'', ''tomorrow'']),
     (''normal'', [''convenient'', ''schedule'', ''when possible'']),
     (''low'', [''whenever'', ''no rush'', ''flexible''])]"

definition bundle_indicators :: "string list" where
  "bundle_indicators = [''add'', ''also'', ''too'', ''bundle'', ''package'', ''plus'', ''include'']"

definition pricing_indicators :: "string list" where
  "pricing_indicators = [''cost'', ''price'', ''how much'', ''quote'', ''estimate'', ''expensive'']"

definition schedule_indicators :: "string list" where
  "schedule_indicators = [''when'', ''schedule'', ''appointment'', ''time'', ''available'']"

definition extract_entities_from_message :: "string \<Rightarrow> pydict" where
  "extract_entities_from_message message =
    (let message_lower = lower message;
         e0 = [];
         e1 = (case first_match service_patterns message_lower of
                 None \<Rightarrow> e0
               | Some svc \<Rightarrow> AList.update ''service_type'' (PyStr svc) e0);
         e2 = (case first_match urgency_patterns message_lower of
                 None \<Rightarrow> e1
               | Some urg \<Rightarrow> AList.update ''urgency'' (PyStr urg) e1);
         e3 = (if any_in bundle_indicators message_lower
               then AList.update ''bundle_request'' (PyBool True) e2 else e2);
         e4 = (if any_in pricing_indicators message_lower
               then AList.update ''pricing_request'' (PyBool True) e3 else e3);
         e5 = (if any_in schedule_indicators message_lower
               then AList.update ''scheduling_request'' (PyBool True) e4 else e4)
     in e5)"

subsection \<open>\<open>AgentOrchestrator._determine_agent_chain\<close>\<close>

text \<open>
  The planner. Its stages are the registry names of the agents: \<open>customer_relations\<close>
  (communication), \<open>bundle_optimizer\<close> (bundle), \<open>calendar_specialist\<close> (calendar) and
  \<open>pricing_analyst\<close> (pricing). The first argument is not used by the source either.
\<close>

definition determine_agent_chain :: "pydict \<Rightarrow> pydict \<Rightarrow> string list" where
  "determine_agent_chain primary_result entities =
    (let chain0 = [''customer_relations''];
         chain1 = (if truthy (dict_get entities ''bundle_request'')
                   then chain0 @ [''bundle_optimizer''] else chain0);
         chain2 = (if truthy (dict_get entities ''scheduling_request'')
                      \<or> dict_get entities ''urgency'' \<in> set [PyStr ''emergency'', PyStr ''high'']
                   then chain1 @ [''calendar_specialist''] else chain1);
         chain3 = (if truthy (dict_get entities ''pricing_request'')
                      \<or> ''bundle_optimizer'' \<in> set chain2
                   then chain2 @ [''pricing_analyst''] else chain2)
     in chain3)"

section \<open>The dependency-free demo (simple_demo.py)\<close>

subsection \<open>\<open>SimpleAgentDemo.analyze_customer_request\<close>\<close>

record analysis =
  service_type :: string
  urgency :: string
  additional_services :: "string list"
  requires_scheduling :: bool
  requires_pricing :: bool
  bundle_request :: bool

definition analyze_customer_request :: "string \<Rightarrow> analysis" where
  "analyze_customer_request message =
    (let message_lower = lower message;
         stype =
           (if any_in [''ac'', ''air conditioning'', ''cooling''] message_lower then ''ac_repair''
            else if any_in [''heat'', ''heating'', ''furnace''] message_lower then ''heating''
            else if any_in [''plumb'', ''water'', ''leak''] message_lower then ''plumbing''
            else if any_in [''electric'', ''power'', ''outlet''] message_lower then ''electrical''
            else ''ac_repair'');
         urg =
           (if any_in [''emergency'', ''urgent'', ''asap'', ''broken''] message_lower then ''emergency''
            else if any_in [''this week'', ''soon'', ''today''] message_lower then ''high''
            else if any_in [''whenever'', ''flexible''] message_lower then ''low''
            else ''normal'');
         adds0 = [];
         adds1 = (if contains message_lower ''thermostat''
                  then adds0 @ [''thermostat_install''] else adds0);
         adds2 = (if contains message_lower ''filter''
                  then adds1 @ [''filter_replacement''] else adds1)
     in \<lparr> service_type = stype, urgency = urg, additional_services = adds2,
          requires_scheduling = any_in [''week'', ''today'', ''tomorrow''] message_lower,
          requires_pricing = any_in [''cost'', ''price'', ''how much''] message_lower,
          bundle_request = any_in [''add'', ''bundle'', ''also'', ''too''] message_lower \<rparr>)"

subsection \<open>\<open>SimpleAgentDemo.handle_followup\<close>\<close>







section \<open>The orchestrator (agent_orchestrator.py)\<close>

text \<open>
  An exception is a value: its class name and \<open>str(e)\<close>. \<open>PyExn\<close> is an instance of
  \<open>Exception\<close>; \<open>PyBaseExn\<close> is an instance of \<open>BaseException\<close> that is not an
  \<open>Exception\<close> (\<open>asyncio.CancelledError\<close>, \<open>KeyboardInterrupt\<close>, \<open>SystemExit\<close>,
  \<open>GeneratorExit\<close>). A function that can raise returns \<open>exn + 'a\<close>, with \<open>Inl\<close> for the
  exception that leaves it.
\<close>

datatype exn = PyExn string string | PyBaseExn string string

fun exn_str :: "exn \<Rightarrow> string" where
  "exn_str (PyExn cls msg) = msg"
| "exn_str (PyBaseExn cls msg) = msg"

text \<open>What the clause \<open>except Exception\<close> catches.\<close>

fun is_exception :: "exn \<Rightarrow> bool" where
  "is_exception (PyExn cls msg) = True"
| "is_exception (PyBaseExn cls msg) = False"

definition then_do :: "exn + 'a \<Rightarrow> ('a \<Rightarrow> exn + 'b) \<Rightarrow> exn + 'b" where
  "then_do r f = (case r of Inl e \<Rightarrow> Inl e | Inr x \<Rightarrow> f x)"

text \<open>
  An f-string is kept as its pieces, literal text and interpolated values, so that no
  rendering of numbers has to be fixed.
\<close>

datatype piece = Lit string | Val pyval

type_synonym fstring = "piece list"

text \<open>
  The names of the types, as error messages print them. Numbers are not split into
  \<open>int\<close> and \<open>float\<close>; the messages name \<open>float\<close>.
\<close>

definition quoted :: "string \<Rightarrow> string" where
  "quoted s = CHR 0x27 # s @ [CHR 0x27]"







subsection \<open>Workflow records\<close>

text \<open>
  \<open>WorkflowStep\<close>, \<open>WorkflowContext\<close>, \<open>AgentResponse\<close> and \<open>ActionType\<close> are imported
  from \<open>service_models\<close>; they are taken as plain records with the fields the orchestrator
  passes, whose construction does not fail. Identifiers drawn with \<open>uuid4\<close>, time stamps
  and the per-step \<open>input_data\<close> are left out.
\<close>

datatype action_type = REASON | CALENDAR_CHECK | PRICING_QUERY | BUNDLE_ANALYSIS | CUSTOMER_FOLLOWUP

record workflow_step =
  step_agent_name :: string
  step_action_type :: action_type
  step_output_data :: pydict
  step_status :: string
  step_confidence :: pyval

record workflow_context =
  request_id :: string
  customer_message :: string
  extracted_entities :: pydict
  conversation_history :: "(string \<times> string) list"
  workflow_steps :: "workflow_step list"
  current_step :: nat
  status :: string
  error_message :: "string option"

record agent_response =
  resp_request_id :: string
  agent_name :: string
  reasoning :: fstring
  actions_taken :: "string list"
  result :: pydict
  next_steps :: "string list"
  confidence :: pyval

text \<open>
  \<open>ReACTAgent.think_and_act\<close> is an external collaborator (\<open>react_agent\<close>): given the
  registry name of the agent, the context and the goal, it raises or returns a
  dictionary, and it may have changed the context object it was handed. What it raises
  can be any exception, also one outside \<open>Exception\<close>: the call is awaited, and the task
  can be cancelled there.
\<close>

type_synonym think_and_act =
  "string \<Rightarrow> workflow_context \<Rightarrow> fstring \<Rightarrow> (exn + pydict) \<times> workflow_context"

definition agent_registry_keys :: "string list" where
  "agent_registry_keys =
    [''primary_dispatcher'', ''calendar_specialist'', ''pricing_analyst'',
     ''bundle_optimizer'', ''customer_relations'', ''error_recovery'']"

text \<open>\<open>self.agent_registry[name]\<close>: a \<open>KeyError\<close> for a name outside the registry.\<close>

definition registry_lookup :: "string \<Rightarrow> exn + string" where
  "registry_lookup name =
    (if name \<in> set agent_registry_keys then Inr name
     else Inl (PyExn ''KeyError'' (quoted name)))"

subsection \<open>\<open>_determine_agent_goal\<close>, \<open>_map_agent_to_action\<close>\<close>



subsection \<open>\<open>_execute_agent_chain\<close>\<close>








subsection \<open>\<open>_synthesize_next_steps\<close>, \<open>_generate_reasoning_summary\<close>\<close>





subsection \<open>\<open>_synthesize_response\<close>\<close>

record metrics =
  total_requests :: nat
  successful_completions :: nat
  error_count :: nat
  average_confidence :: rat




subsection \<open>Results the synthesis can read\<close>





subsection \<open>\<open>ConversationState\<close> (prompt.py)\<close>

text \<open>
  The state the orchestrator keeps beside each workflow. Only its messages (role and
  content) and its extracted entities are touched by \<open>add_message\<close>.
\<close>

record conversation_state =
  messages :: "(string \<times> string) list"
  cs_extracted_entities :: pydict

definition cs_urgency_patterns :: "(string \<times> string list) list" where
  "cs_urgency_patterns =
    [(''emergency'', [''emergency'', ''urgent'', ''asap'', ''immediately'', ''broken'',
                      ''not working'']),
     (''high'', [''this week'', ''soon'', ''quickly'', ''today'', ''tomorrow'']),
     (''normal'', [''convenient'', ''schedule'', ''when possible'']),
     (''low'', [''whenever'', ''no rush'', ''flexible''])]"

definition location_patterns :: "string list" where
  "location_patterns = [''house'', ''home'', ''office'', ''building'', ''apartment'', ''condo'']"

definition update_entities_from_message :: "pydict \<Rightarrow> string \<Rightarrow> pydict" where
  "update_entities_from_message entities content =
    (let content_lower = lower content;
         e1 = (case first_match service_patterns content_lower of
                 None \<Rightarrow> entities
               | Some svc \<Rightarrow> AList.update ''service_type'' (PyStr svc) entities);
         e2 = (case first_match cs_urgency_patterns content_lower of
                 None \<Rightarrow> e1
               | Some urg \<Rightarrow> AList.update ''urgency'' (PyStr urg) e1);
         e3 = (if any_in bundle_indicators content_lower
               then AList.update ''bundle_request'' (PyBool True) e2 else e2);
         e4 = (case find (contains content_lower) location_patterns of
                 None \<Rightarrow> e3
               | Some loc \<Rightarrow> AList.update ''location_type'' (PyStr loc) e3)
     in e4)"

definition add_message :: "conversation_state \<Rightarrow> string \<Rightarrow> string \<Rightarrow> conversation_state" where
  "add_message cs role content =
    (let cs1 = cs \<lparr> messages := messages cs @ [(role, content)] \<rparr>
     in if role = ''user''
        then cs1 \<lparr> cs_extracted_entities :=
                     update_entities_from_message (cs_extracted_entities cs1) content \<rparr>
        else cs1)"

subsection \<open>The orchestrator's state\<close>

record orchestrator =
  active_workflows :: "string \<rightharpoonup> workflow_context"
  conversation_states :: "string \<rightharpoonup> conversation_state"
  performance_metrics :: metrics

text \<open>The orchestrator as \<open>__init__\<close> leaves it.\<close>

definition new_orchestrator :: orchestrator where
  "new_orchestrator =
    \<lparr> active_workflows = Map.empty,
      conversation_states = Map.empty,
      performance_metrics = \<lparr> total_requests = 0, successful_completions = 0,
                               error_count = 0, average_confidence = 0 \<rparr> \<rparr>"

subsection \<open>\<open>_initialize_workflow_context\<close>\<close>

definition initialize_workflow_context :: "string \<Rightarrow> string \<Rightarrow> workflow_context" where
  "initialize_workflow_context rid message =
    \<lparr> request_id = rid,
      customer_message = message,
      extracted_entities = extract_entities_from_message message,
      conversation_history = [(''user'', message)],
      workflow_steps = [],
      current_step = 0,
      status = ''initializing'',
      error_message = None \<rparr>"

subsection \<open>\<open>_analyze_followup_intent\<close>\<close>

definition intent_patterns :: "(string \<times> string list) list" where
  "intent_patterns =
    [(''bundle_request'', [''add'', ''also'', ''too'', ''bundle'', ''include'', ''plus'']),
     (''pricing_query'', [''cost'', ''price'', ''how much'', ''quote'', ''expensive'']),
     (''scheduling_change'', [''reschedule'', ''change time'', ''different day'', ''earlier'', ''later'']),
     (''service_modification'', [''change'', ''different'', ''instead'', ''modify'']),
     (''clarification'', [''what'', ''how'', ''when'', ''why'', ''explain''])]"

definition agent_routing :: "(string \<times> string) list" where
  "agent_routing =
    [(''bundle_request'', ''bundle_optimizer''),
     (''pricing_query'', ''pricing_analyst''),
     (''scheduling_change'', ''calendar_specialist''),
     (''service_modification'', ''primary_dispatcher''),
     (''clarification'', ''customer_relations''),
     (''general_followup'', ''customer_relations'')]"

definition goal_mapping :: "(string \<times> string) list" where
  "goal_mapping =
    [(''bundle_request'', ''analyze_additional_service_bundle_opportunities''),
     (''pricing_query'', ''provide_detailed_pricing_breakdown_and_options''),
     (''scheduling_change'', ''find_alternative_appointment_slots''),
     (''service_modification'', ''reassess_service_requirements_and_options''),
     (''clarification'', ''provide_clear_explanation_and_guidance''),
     (''general_followup'', ''address_customer_concerns_and_provide_assistance'')]"

text \<open>\<open>table[key]\<close>: a \<open>KeyError\<close> for a missing key.\<close>

definition lookup_or_raise :: "(string \<times> 'v) list \<Rightarrow> string \<Rightarrow> exn + 'v" where
  "lookup_or_raise table k =
    (case map_of table k of None \<Rightarrow> Inl (PyExn ''KeyError'' (quoted k)) | Some v \<Rightarrow> Inr v)"

record followup_analysis =
  detected_intent :: string
  recommended_agent :: string
  specific_goal :: string
  fa_reasoning :: string
  fa_confidence :: rat

definition analyze_followup_intent :: "workflow_context \<Rightarrow> string \<Rightarrow> exn + followup_analysis" where
  "analyze_followup_intent ctx followup_message =
    (let followup_lower = lower followup_message;
         intent = (case first_match intent_patterns followup_lower of
                     None \<Rightarrow> ''general_followup''
                   | Some i \<Rightarrow> i)
     in then_do (lookup_or_raise agent_routing intent) (\<lambda>agent.
        then_do (lookup_or_raise goal_mapping intent) (\<lambda>goal.
        Inr \<lparr> detected_intent = intent,
              recommended_agent = agent,
              specific_goal = goal,
              fa_reasoning = ''Followup analysis detected '' @ intent @ '', routing to '' @ agent,
              fa_confidence = 85 / 100 \<rparr>)))"

text \<open>The analysis as the dictionary that is put into the response.\<close>

definition followup_analysis_dict :: "followup_analysis \<Rightarrow> pydict" where
  "followup_analysis_dict fa =
    [(''detected_intent'', PyStr (detected_intent fa)),
     (''recommended_agent'', PyStr (recommended_agent fa)),
     (''specific_goal'', PyStr (specific_goal fa)),
     (''reasoning'', PyStr (fa_reasoning fa)),
     (''confidence'', PyNum (fa_confidence fa))]"

subsection \<open>\<open>_determine_followup_next_steps\<close>, \<open>_handle_followup_error\<close>\<close>

definition determine_followup_next_steps :: "pydict \<Rightarrow> string list" where
  "determine_followup_next_steps followup_result =
    (if truthy (dict_get followup_result ''needs_continuation'')
     then [''Review updated information and options'',
           ''Confirm preferences and requirements'',
           ''Proceed with service booking when ready'']
     else [''All requirements addressed'',
           ''Ready to proceed with service booking'',
           ''Contact us for any additional questions''])"

definition handle_followup_error :: "string \<Rightarrow> string \<Rightarrow> string \<Rightarrow> agent_response" where
  "handle_followup_error rid followup_message err =
    \<lparr> resp_request_id = rid,
      agent_name = ''FollowupErrorHandler'',
      reasoning = [Lit (''Follow-up processing error: '' @ err)],
      actions_taken = [''error_detection'', ''followup_error_handling''],
      result = [(''error_message'', PyStr err),
                (''followup_message'', PyStr followup_message),
                (''status'', PyStr ''followup_error_handled'')],
      next_steps = [''Please rephrase your request'',
                    ''Contact support for assistance'',
                    ''Try again with simpler language''],
      confidence = PyNum (4 / 10) \<rparr>"

subsection \<open>\<open>handle_followup_request\<close>\<close>

text \<open>
  The \<open>try\<close> block of \<open>handle_followup_request\<close>, entered with the stored context: the
  response or the exception that ended it, and the orchestrator as the block leaves it.
  The context and the conversation state are objects held by the two dictionaries of
  the orchestrator, so every change made to them before an exception stays.
\<close>

definition followup_try_body ::
  "think_and_act \<Rightarrow> orchestrator \<Rightarrow> string \<Rightarrow> string \<Rightarrow> workflow_context
     \<Rightarrow> (exn + agent_response) \<times> orchestrator"
where
  "followup_try_body think orch rid followup_message ctx0 =
    (case conversation_states orch rid of
       None \<Rightarrow> (Inl (PyExn ''KeyError'' (quoted rid)), orch)
     | Some cs0 \<Rightarrow>
        (let cs1 = add_message cs0 ''user'' followup_message;
             ctx1 = ctx0 \<lparr> conversation_history :=
                      conversation_history ctx0 @ [(''user'', followup_message)] \<rparr>;
             orch1 = orch \<lparr> conversation_states := (conversation_states orch)(rid \<mapsto> cs1),
                            active_workflows := (active_workflows orch)(rid \<mapsto> ctx1) \<rparr>
         in case analyze_followup_intent ctx1 followup_message of
              Inl e \<Rightarrow> (Inl e, orch1)
            | Inr fa \<Rightarrow>
               (case registry_lookup (recommended_agent fa) of
                  Inl e \<Rightarrow> (Inl e, orch1)
                | Inr specialized_agent \<Rightarrow>
                   (let (outcome, ctx2) = think specialized_agent ctx1 [Lit (specific_goal fa)];
                        orch2 = orch1 \<lparr> active_workflows := (active_workflows orch1)(rid \<mapsto> ctx2) \<rparr>
                    in case outcome of
                         Inl e \<Rightarrow> (Inl e, orch2)
                       | Inr followup_result \<Rightarrow>
                          (let response =
                                 \<lparr> resp_request_id = rid,
                                   agent_name = ''OrchestrationEngine'',
                                   reasoning = [Lit (''Follow-up processed by '' @ recommended_agent fa
                                                  @ '': '' @ fa_reasoning fa)],
                                   actions_taken = [''followup_analysis'',
                                                    recommended_agent fa @ ''_processing''],
                                   result = [(''followup_analysis'', PyDict (followup_analysis_dict fa)),
                                             (''agent_result'', PyDict followup_result),
                                             (''context_preserved'', PyBool True)],
                                   next_steps = determine_followup_next_steps followup_result,
                                   confidence = dict_get_default followup_result ''confidence''
                                                  (PyNum (8 / 10)) \<rparr>;
                               ctx3 = ctx2 \<lparr> workflow_steps := workflow_steps ctx2 @
                                        [\<lparr> step_agent_name = agent_name response,
                                           step_action_type = CUSTOMER_FOLLOWUP,
                                           step_output_data = result response,
                                           step_status = ''completed'',
                                           step_confidence = confidence response \<rparr>] \<rparr>;
                               orch3 = orch2 \<lparr> active_workflows :=
                                         (active_workflows orch2)(rid \<mapsto> ctx3) \<rparr>
                           in (Inr response, orch3))))))"

text \<open>
  The follow-up entry point. The guard for an unknown request id stands before the
  \<open>try\<close>, so its \<open>ValueError\<close> leaves the function. An \<open>Exception\<close> raised in the block
  is turned into the response of \<open>_handle_followup_error\<close> by \<open>except Exception\<close>; any
  other exception leaves the function.
\<close>

definition handle_followup_request ::
  "think_and_act \<Rightarrow> orchestrator \<Rightarrow> string \<Rightarrow> string \<Rightarrow> (exn + agent_response) \<times> orchestrator"
where
  "handle_followup_request think orch rid followup_message =
    (case active_workflows orch rid of
       None \<Rightarrow> (Inl (PyExn ''ValueError'' (''Workflow '' @ rid @ '' not found'')), orch)
     | Some ctx0 \<Rightarrow>
        (case followup_try_body think orch rid followup_message ctx0 of
           (Inr response, orch') \<Rightarrow> (Inr response, orch')
         | (Inl e, orch') \<Rightarrow>
             (if is_exception e
              then (Inr (handle_followup_error rid followup_message (exn_str e)), orch')
              else (Inl e, orch'))))"

subsection \<open>\<open>get_workflow_status\<close>\<close>

text \<open>
  The status dictionary, without \<open>last_updated\<close> (a time stamp). \<open>agents_involved\<close> is
  \<open>list(set(...))\<close>: the names without duplicates, in an order the source leaves open.
\<close>

record workflow_status =
  ws_request_id :: string
  ws_status :: string
  ws_current_step :: nat
  total_steps :: nat
  agents_involved :: "string list"
  ws_error_message :: "string option"

definition get_workflow_status :: "orchestrator \<Rightarrow> string \<Rightarrow> workflow_status option" where
  "get_workflow_status orch rid =
    (case active_workflows orch rid of
       None \<Rightarrow> None
     | Some ctx \<Rightarrow>
         Some \<lparr> ws_request_id = rid,
                ws_status = status ctx,
                ws_current_step = current_step ctx,
                total_steps = length (workflow_steps ctx),
                agents_involved = remdups (map step_agent_name (workflow_steps ctx)),
                ws_error_message = error_message ctx \<rparr>)"


section \<open>Concrete inputs\<close>

text \<open>
  The first request of the repository's demonstrations, two follow-ups, and a first
  request that already names an additional service.
\<close>

definition ac_request_text :: string where
  "ac_request_text = ''My AC is broken. Can someone fix it this week?''"

definition bundle_followup_text :: string where
  "bundle_followup_text = ''Can you add thermostat installation too and bundle it?''"





text \<open>
  An orchestrator holding one workflow, as \<open>process_service_request\<close> stores it for the
  first request; collaborators of which \<open>customer_relations\<close> times out while every other
  agent answers with confidence 0.8; and collaborators of which \<open>customer_relations\<close>
  answers while the task is cancelled in every other agent.
\<close>

definition demo_context :: workflow_context where
  "demo_context = initialize_workflow_context ''req-1'' ac_request_text"

definition demo_orchestrator :: orchestrator where
  "demo_orchestrator =
    new_orchestrator
      \<lparr> active_workflows := [''req-1'' \<mapsto> demo_context],
        conversation_states :=
          [''req-1'' \<mapsto> add_message \<lparr> messages = [], cs_extracted_entities = [] \<rparr>
                              ''user'' ac_request_text] \<rparr>"

definition demo_think :: think_and_act where
  "demo_think name ctx goal =
    (if name = ''customer_relations''
     then (Inl (PyExn ''TimeoutError'' ''collaborator timed out''), ctx)
     else (Inr [(''confidence'', PyNum (8 / 10)),
                (''action_result'', PyDict [(''available_slots'', PyList [PyStr ''tomorrow 14:00''])])],
           ctx))"

definition cancelled_think :: think_and_act where
  "cancelled_think name ctx goal =
    (if name = ''customer_relations''
     then (Inr [(''confidence'', PyNum (9 / 10))], ctx)
     else (Inl (PyBaseExn ''CancelledError'' []), ctx))"




section \<open>Properties of the pricing engine\<close>

lemma addon_price_nonneg: "0 \<le> addon_price s"
  by (simp add: addon_price_def addon_prices_def)

lemma service_addon_price_nonneg: "0 \<le> service_addon_price s"
  by (simp add: service_addon_price_def service_addon_prices_def)

lemma addon_sum_nonneg: "0 \<le> sum_list (map addon_price xs)"
  by (induction xs) (simp_all add: addon_price_nonneg)

lemma service_addon_sum_nonneg: "0 \<le> sum_list (map service_addon_price xs)"
  by (induction xs) (simp_all add: service_addon_price_nonneg)

lemma base_cost_pos: "0 < base_cost (calculate_pricing st adds u)"
  by (simp add: calculate_pricing_def Let_def base_prices_def)

lemma service_base_cost_pos: "0 < base_cost (service_calculate_pricing st adds u)"
  by (simp add: service_calculate_pricing_def Let_def service_base_prices_def)

lemma subtotal_pos: "0 < subtotal (calculate_pricing st adds u)"
proof -
  have "subtotal (calculate_pricing st adds u) =
        base_cost (calculate_pricing st adds u) + sum_list (map addon_price adds)"
    by (simp add: calculate_pricing_def Let_def)
  with base_cost_pos [of st adds u] addon_sum_nonneg [of adds] show ?thesis
    by linarith
qed

lemma service_subtotal_pos: "0 < subtotal (service_calculate_pricing st adds u)"
proof -
  have "subtotal (service_calculate_pricing st adds u) =
        base_cost (service_calculate_pricing st adds u) +
        sum_list (map service_addon_price (case adds of None \<Rightarrow> [] | Some xs \<Rightarrow> xs))"
    by (simp add: service_calculate_pricing_def Let_def)
  with service_base_cost_pos [of st adds u]
       service_addon_sum_nonneg [of "case adds of None \<Rightarrow> [] | Some xs \<Rightarrow> xs"]
  show ?thesis by linarith
qed

lemma calculate_pricing_fields:
  fixes st :: string and adds :: "string list" and u :: string
  defines "p \<equiv> calculate_pricing st adds u"
  shows "total p = subtotal p - bundle_discount p + urgency_surcharge p + tax p"
    and "subtotal p = base_cost p + addon_cost p"
    and "savings p = bundle_discount p"
    and "tax p = (subtotal p - bundle_discount p + urgency_surcharge p) * (8 / 100)"
    and "bundle_discount p = subtotal p * (if adds \<noteq> [] then 15 / 100 else 0)"
  unfolding p_def calculate_pricing_def Let_def pricing.simps
  by (rule refl)+

lemma service_calculate_pricing_fields:
  fixes st :: string and adds_opt :: "string list option" and u :: string
  defines "q \<equiv> service_calculate_pricing st adds_opt u"
  shows "total q = subtotal q - bundle_discount q + urgency_surcharge q + tax q"
    and "subtotal q = base_cost q + addon_cost q"
    and "savings q = bundle_discount q"
    and "tax q = (subtotal q - bundle_discount q + urgency_surcharge q) * (8 / 100)"
    and "bundle_discount q = subtotal q *
           (case adds_opt of None \<Rightarrow> 0
            | Some xs \<Rightarrow> if xs \<noteq> [] \<and> length xs > 0 then 15 / 100 else 0)"
  unfolding q_def service_calculate_pricing_def Let_def pricing.simps
  by (rule refl)+

text \<open>
  C1. Every breakdown satisfies
  \<open>total = subtotal - bundleDiscount - sameVisitSavings + urgencySurcharge + tax\<close> with
  \<open>subtotal = baseCost + addonCost\<close>, for every service type, addon list and urgency, in
  both pricing functions. The returned dictionary has no same-visit component of its
  own; the part of \<open>savings\<close> that is not the bundle discount stands for it, and it is
  zero in every breakdown.
\<close>

theorem pricing_invariant:
  "(let p = calculate_pricing st adds u in
      total p = subtotal p - bundle_discount p - (savings p - bundle_discount p)
                  + urgency_surcharge p + tax p
      \<and> subtotal p = base_cost p + addon_cost p
      \<and> savings p - bundle_discount p = 0)
   \<and> (let q = service_calculate_pricing st adds_opt u in
      total q = subtotal q - bundle_discount q - (savings q - bundle_discount q)
                  + urgency_surcharge q + tax q
      \<and> subtotal q = base_cost q + addon_cost q
      \<and> savings q - bundle_discount q = 0)"
proof -
  let ?p = "calculate_pricing st adds u"
  let ?q = "service_calculate_pricing st adds_opt u"
  have p0: "savings ?p - bundle_discount ?p = 0"
    using calculate_pricing_fields(3) [of st adds u] by simp
  have q0: "savings ?q - bundle_discount ?q = 0"
    using service_calculate_pricing_fields(3) [of st adds_opt u] by simp
  have pt: "total ?p = subtotal ?p - bundle_discount ?p - (savings ?p - bundle_discount ?p)
                  + urgency_surcharge ?p + tax ?p"
    unfolding p0 using calculate_pricing_fields(1) [of st adds u] by simp
  have qt: "total ?q = subtotal ?q - bundle_discount ?q - (savings ?q - bundle_discount ?q)
                  + urgency_surcharge ?q + tax ?q"
    unfolding q0 using service_calculate_pricing_fields(1) [of st adds_opt u] by simp
  show ?thesis
    unfolding Let_def
    using p0 q0 pt qt calculate_pricing_fields(2) [of st adds u]
      service_calculate_pricing_fields(2) [of st adds_opt u]
    by blast
qed

text \<open>
  C5. The bundle discount is \<open>0.15 * subtotal\<close> when the list of additional services is
  non-empty and \<open>0\<close> when it is empty (or, in \<open>PricingService\<close>, \<open>None\<close>); since the
  subtotal is always positive, the discount is non-zero exactly when additional services
  are present.
\<close>

theorem bundle_discount_iff_addons:
  "(let p = calculate_pricing st adds u in
      bundle_discount p = (if adds \<noteq> [] then (15 / 100) * subtotal p else 0)
      \<and> (bundle_discount p \<noteq> 0) = (adds \<noteq> []))
   \<and> (let q = service_calculate_pricing st adds_opt u;
           nonempty = (case adds_opt of None \<Rightarrow> False | Some xs \<Rightarrow> xs \<noteq> []) in
      bundle_discount q = (if nonempty then (15 / 100) * subtotal q else 0)
      \<and> (bundle_discount q \<noteq> 0) = nonempty)"
proof -
  let ?p = "calculate_pricing st adds u"
  let ?q = "service_calculate_pricing st adds_opt u"
  let ?ne = "case adds_opt of None \<Rightarrow> False | Some xs \<Rightarrow> xs \<noteq> []"
  have p1: "bundle_discount ?p = (if adds \<noteq> [] then (15 / 100) * subtotal ?p else 0)"
    using calculate_pricing_fields(5) [of st adds u] by simp
  have q1: "bundle_discount ?q = (if ?ne then (15 / 100) * subtotal ?q else 0)"
    using service_calculate_pricing_fields(5) [of st adds_opt u]
    by (simp split: option.splits)
  have p2: "(bundle_discount ?p \<noteq> 0) = (adds \<noteq> [])"
    using p1 subtotal_pos [of st adds u] by simp
  have q2: "(bundle_discount ?q \<noteq> 0) = ?ne"
    using q1 service_subtotal_pos [of st adds_opt u] by simp
  show ?thesis
    unfolding Let_def using p1 p2 q1 q2 by blast
qed

text \<open>
  C10. The final total is not monotone in the addon set: on an \<open>ac_repair\<close> base at normal
  urgency, adding \<open>filter_replacement\<close> (25) strictly lowers both the pre-tax total
  (\<open>total - tax\<close>) and the final total, in both pricing functions, because the 15 percent
  discount is taken on the whole subtotal, base cost included, and exceeds the addon's
  price.
\<close>

theorem addon_can_lower_total:
  "(let q0 = service_calculate_pricing ''ac_repair'' (Some []) ''normal'';
        q1 = service_calculate_pricing ''ac_repair'' (Some [''filter_replacement'']) ''normal'' in
      total q0 = 243 \<and> total q1 = 2295 / 10 \<and> total q1 < total q0
      \<and> total q0 - tax q0 = 225 \<and> total q1 - tax q1 = 2125 / 10
      \<and> total q1 - tax q1 < total q0 - tax q0
      \<and> bundle_discount q1 = (15 / 100) * (base_cost q1 + addon_cost q1)
      \<and> addon_cost q1 < bundle_discount q1)
   \<and> (let p0 = calculate_pricing ''ac_repair'' [] ''normal'';
        p1 = calculate_pricing ''ac_repair'' [''filter_replacement''] ''normal'' in
      total p0 = 162 \<and> total p1 = 16065 / 100 \<and> total p1 < total p0
      \<and> total p0 - tax p0 = 150 \<and> total p1 - tax p1 = 14875 / 100
      \<and> total p1 - tax p1 < total p0 - tax p0
      \<and> bundle_discount p1 = (15 / 100) * (base_cost p1 + addon_cost p1)
      \<and> addon_cost p1 < bundle_discount p1)"
  by (simp add: calculate_pricing_def service_calculate_pricing_def Let_def
      base_prices_def addon_prices_def addon_price_def service_base_prices_def
      service_addon_prices_def service_addon_price_def surcharge_of_def urgency_surcharges_def)

section \<open>Properties of extraction and planning\<close>

lemma lower_ac_request:
  "lower ac_request_text = ''my ac is broken. can someone fix it this week?''"
  by (simp add: ac_request_text_def lower_def lower_char_def)

lemma extract_ac_request:
  "extract_entities_from_message ac_request_text =
     [(''service_type'', PyStr ''ac_repair''), (''urgency'', PyStr ''emergency'')]"
  unfolding extract_entities_from_message_def lower_ac_request
  by (simp add: Let_def service_patterns_def urgency_patterns_def any_in_def
      bundle_indicators_def pricing_indicators_def schedule_indicators_def)

lemma analyze_ac_request:
  "analyze_customer_request ac_request_text =
     \<lparr> service_type = ''ac_repair'', urgency = ''emergency'', additional_services = [],
       requires_scheduling = True, requires_pricing = False, bundle_request = False \<rparr>"
  unfolding analyze_customer_request_def lower_ac_request
  by (simp add: Let_def any_in_def)

lemma chain_ac_request:
  "determine_agent_chain pr (extract_entities_from_message ac_request_text) =
     [''customer_relations'', ''calendar_specialist'']"
  unfolding extract_ac_request
  by (simp add: determine_agent_chain_def Let_def dict_get_def)

lemma pricing_ac_emergency:
  "service_calculate_pricing ''ac_repair'' (Some []) ''emergency'' =
     \<lparr> base_cost = 225, addon_cost = 0, subtotal = 225, bundle_discount = 0,
       urgency_surcharge = 75, tax = 24, total = 324, savings = 0 \<rparr>"
  by (simp add: service_calculate_pricing_def Let_def service_base_prices_def
      service_addon_price_def surcharge_of_def urgency_surcharges_def)

lemma simple_pricing_ac_emergency:
  "calculate_pricing ''ac_repair'' [] ''emergency'' =
     \<lparr> base_cost = 150, addon_cost = 0, subtotal = 150, bundle_discount = 0,
       urgency_surcharge = 75, tax = 18, total = 243, savings = 0 \<rparr>"
  by (simp add: calculate_pricing_def Let_def base_prices_def
      surcharge_of_def urgency_surcharges_def)

text \<open>
  C2. For every dictionary of entities the planner returns exactly the stages of the rule
  table, in the fixed order and none of them twice: \<open>customer_relations\<close> always;
  \<open>bundle_optimizer\<close> iff \<open>bundle_request\<close> is set; \<open>calendar_specialist\<close> iff
  \<open>scheduling_request\<close> is set or the urgency is \<open>emergency\<close> or \<open>high\<close>;
  \<open>pricing_analyst\<close> iff \<open>pricing_request\<close> is set or the bundle stage was included.
\<close>

theorem planner_rule_table:
  "determine_agent_chain pr entities =
     [''customer_relations'']
     @ (if truthy (dict_get entities ''bundle_request'') then [''bundle_optimizer''] else [])
     @ (if truthy (dict_get entities ''scheduling_request'')
           \<or> dict_get entities ''urgency'' = PyStr ''emergency''
           \<or> dict_get entities ''urgency'' = PyStr ''high''
        then [''calendar_specialist''] else [])
     @ (if truthy (dict_get entities ''pricing_request'')
           \<or> truthy (dict_get entities ''bundle_request'')
        then [''pricing_analyst''] else [])
   \<and> distinct (determine_agent_chain pr entities)"
  by (simp add: determine_agent_chain_def Let_def)

text \<open>
  C3, as stated, fails on the code. For the text
  \<open>My AC is broken. Can someone fix it this week?\<close> the extractor does not report urgency
  \<open>high\<close> (the keyword \<open>broken\<close> of the \<open>emergency\<close> group is matched first), none of the
  schedule indicators occurs in it, and the planner does not append \<open>pricing_analyst\<close>.
\<close>

theorem ac_scenario_counterexample:
  "\<not> (dict_get (extract_entities_from_message ac_request_text) ''service_type'' = PyStr ''ac_repair''
      \<and> dict_get (extract_entities_from_message ac_request_text) ''urgency'' = PyStr ''high''
      \<and> dict_get (extract_entities_from_message ac_request_text) ''scheduling_request'' = PyBool True
      \<and> determine_agent_chain [] (extract_entities_from_message ac_request_text) =
           [''customer_relations'', ''calendar_specialist'', ''pricing_analyst'']
      \<and> base_cost (service_calculate_pricing ''ac_repair'' (Some []) ''high'') = 225
      \<and> urgency_surcharge (service_calculate_pricing ''ac_repair'' (Some []) ''high'') = 25
      \<and> subtotal (service_calculate_pricing ''ac_repair'' (Some []) ''high'') = 225
      \<and> tax (service_calculate_pricing ''ac_repair'' (Some []) ''high'') = 20
      \<and> total (service_calculate_pricing ''ac_repair'' (Some []) ''high'') = 270)"
  unfolding chain_ac_request by simp

text \<open>
  C3, amended. For that text both extractors report the service type \<open>ac_repair\<close> and the
  urgency \<open>emergency\<close>: the keyword \<open>broken\<close> of the \<open>emergency\<close> group is found before
  \<open>this week\<close> is looked for. The simple demo sets \<open>requires_scheduling\<close>; the
  orchestrator's extractor sets no \<open>scheduling_request\<close>. The planner, run on the
  extracted entities, returns \<open>customer_relations\<close>, \<open>calendar_specialist\<close>. At the
  extracted urgency \<open>PricingService\<close> gives base cost 225, surcharge 75, subtotal 225,
  tax 24 and total 324, and the simple demo, pricing its own analysis, base cost 150,
  surcharge 75, subtotal 150, tax 18 and total 243.
\<close>

theorem ac_scenario:
  "dict_get (extract_entities_from_message ac_request_text) ''service_type'' = PyStr ''ac_repair''
   \<and> dict_get (extract_entities_from_message ac_request_text) ''urgency'' = PyStr ''emergency''
   \<and> map_of (extract_entities_from_message ac_request_text) ''scheduling_request'' = None
   \<and> service_type (analyze_customer_request ac_request_text) = ''ac_repair''
   \<and> urgency (analyze_customer_request ac_request_text) = ''emergency''
   \<and> requires_scheduling (analyze_customer_request ac_request_text)
   \<and> determine_agent_chain [] (extract_entities_from_message ac_request_text) =
        [''customer_relations'', ''calendar_specialist'']
   \<and> base_cost (service_calculate_pricing ''ac_repair'' (Some []) ''emergency'') = 225
   \<and> urgency_surcharge (service_calculate_pricing ''ac_repair'' (Some []) ''emergency'') = 75
   \<and> subtotal (service_calculate_pricing ''ac_repair'' (Some []) ''emergency'') = 225
   \<and> tax (service_calculate_pricing ''ac_repair'' (Some []) ''emergency'') = 24
   \<and> total (service_calculate_pricing ''ac_repair'' (Some []) ''emergency'') = 324
   \<and> calculate_pricing (service_type (analyze_customer_request ac_request_text))
          (additional_services (analyze_customer_request ac_request_text))
          (urgency (analyze_customer_request ac_request_text)) =
        \<lparr> base_cost = 150, addon_cost = 0, subtotal = 150, bundle_discount = 0,
          urgency_surcharge = 75, tax = 18, total = 243, savings = 0 \<rparr>"
  using chain_ac_request [of "[]"]
  by (simp add: extract_ac_request analyze_ac_request pricing_ac_emergency
      simple_pricing_ac_emergency dict_get_def)

section \<open>Properties of the follow-up of the simple demo\<close>


lemma lower_bundle_followup:
  "lower bundle_followup_text = ''can you add thermostat installation too and bundle it?''"
  by (simp add: bundle_followup_text_def lower_def lower_char_def)









section \<open>Properties of the orchestrator's store\<close>

text \<open>
  C9. For a request id without a stored workflow \<open>get_workflow_status\<close> returns \<open>None\<close>, not
  a status built from a default or empty context; for a stored one it returns the stored
  status, the current step and the number of recorded steps.
\<close>

theorem workflow_status_lookup:
  "(active_workflows orch rid = None \<longrightarrow> get_workflow_status orch rid = None)
   \<and> (\<forall>ctx. active_workflows orch rid = Some ctx \<longrightarrow>
        (\<exists>st. get_workflow_status orch rid = Some st
           \<and> ws_request_id st = rid
           \<and> ws_status st = status ctx
           \<and> ws_current_step st = current_step ctx
           \<and> total_steps st = length (workflow_steps ctx)
           \<and> set (agents_involved st) = step_agent_name ` set (workflow_steps ctx)
           \<and> ws_error_message st = error_message ctx))"
  by (simp add: get_workflow_status_def)

theorem workflow_status_lookup_witness:
  "active_workflows demo_orchestrator ''req-404'' = None
   \<and> get_workflow_status demo_orchestrator ''req-404'' = None
   \<and> active_workflows demo_orchestrator ''req-1'' = Some demo_context
   \<and> map_option ws_status (get_workflow_status demo_orchestrator ''req-1'') = Some ''initializing''
   \<and> map_option total_steps (get_workflow_status demo_orchestrator ''req-1'') = Some 0
   \<and> map_option ws_current_step (get_workflow_status demo_orchestrator ''req-1'') = Some 0"
proof -
  have a: "active_workflows demo_orchestrator ''req-404'' = None"
    by (simp add: demo_orchestrator_def)
  have b: "active_workflows demo_orchestrator ''req-1'' = Some demo_context"
    by (simp add: demo_orchestrator_def)
  from workflow_status_lookup [of demo_orchestrator "''req-404''"] a
  have n: "get_workflow_status demo_orchestrator ''req-404'' = None"
    by blast
  from workflow_status_lookup [of demo_orchestrator "''req-1''"] b
  obtain st where "get_workflow_status demo_orchestrator ''req-1'' = Some st"
    and "ws_status st = status demo_context"
    and "ws_current_step st = current_step demo_context"
    and "total_steps st = length (workflow_steps demo_context)"
    by blast
  with a b n show ?thesis
    by (simp add: demo_context_def initialize_workflow_context_def)
qed

text \<open>
  C8, as stated, fails on the code. For a request id that is not in the store the
  follow-up handler returns no response: the \<open>ValueError\<close> of its guard, raised before
  the \<open>try\<close>, leaves the function.
\<close>

theorem followup_unknown_counterexample:
  "handle_followup_request demo_think new_orchestrator ''req-404'' bundle_followup_text =
     (Inl (PyExn ''ValueError'' ''Workflow req-404 not found''), new_orchestrator)"
  by (simp add: handle_followup_request_def new_orchestrator_def)

text \<open>
  C8, amended. For every request id not present in the store, handling a follow-up fails
  with the \<open>ValueError\<close> \<open>Workflow <id> not found\<close>, raised to the caller, and the
  orchestrator is left as it was. For a request id that is present, every \<open>Exception\<close>
  raised while the follow-up is processed is caught and a response is returned: a
  response is returned whenever the collaborators raise nothing but \<open>Exception\<close>s, and
  the only exceptions that leave the function are those outside \<open>Exception\<close>, such as
  \<open>asyncio.CancelledError\<close>.
\<close>

theorem followup_unknown_raises:
  "(active_workflows orch rid = None \<longrightarrow>
      handle_followup_request think orch rid msg =
        (Inl (PyExn ''ValueError'' (''Workflow '' @ rid @ '' not found'')), orch))
   \<and> (active_workflows orch rid \<noteq> None \<longrightarrow>
        (\<exists>response. fst (handle_followup_request think orch rid msg) = Inr response)
        \<or> (\<exists>e. fst (handle_followup_request think orch rid msg) = Inl e \<and> \<not> is_exception e
              \<and> (\<exists>a c g. fst (think a c g) = Inl e)))
   \<and> (active_workflows orch rid \<noteq> None
        \<and> (\<forall>a c g e. fst (think a c g) = Inl e \<longrightarrow> is_exception e) \<longrightarrow>
        (\<exists>response. fst (handle_followup_request think orch rid msg) = Inr response))"
proof -
  have raised: "\<exists>a c g. fst (think a c g) = Inl e" if "think a c g = (Inl e, c')" for a c g e c'
    using that by (metis fst_conv)
  have body: "fst (followup_try_body think orch rid msg ctx0) = Inl e \<Longrightarrow>
      is_exception e \<or> (\<exists>a c g. fst (think a c g) = Inl e)" for ctx0 e
    by (auto simp add: followup_try_body_def Let_def analyze_followup_intent_def
        lookup_or_raise_def registry_lookup_def then_do_def
        split: option.splits sum.splits prod.splits if_splits dest!: raised)
  have known: "(\<exists>response. fst (handle_followup_request think orch rid msg) = Inr response)
        \<or> (\<exists>e. fst (handle_followup_request think orch rid msg) = Inl e \<and> \<not> is_exception e
              \<and> (\<exists>a c g. fst (think a c g) = Inl e))"
    if "active_workflows orch rid = Some ctx0" for ctx0
  proof (cases "fst (followup_try_body think orch rid msg ctx0)")
    case (Inr response)
    with that show ?thesis
      by (auto simp add: handle_followup_request_def split: prod.splits)
  next
    case (Inl e)
    show ?thesis
    proof (cases "is_exception e")
      case True
      with Inl that show ?thesis
        by (auto simp add: handle_followup_request_def split: prod.splits)
    next
      case False
      with body [OF Inl] have "\<exists>a c g. fst (think a c g) = Inl e" by blast
      with Inl False that show ?thesis
        by (auto simp add: handle_followup_request_def split: prod.splits)
    qed
  qed
  have unknown: "active_workflows orch rid = None \<Longrightarrow>
      handle_followup_request think orch rid msg =
        (Inl (PyExn ''ValueError'' (''Workflow '' @ rid @ '' not found'')), orch)"
    by (simp add: handle_followup_request_def)
  from known unknown show ?thesis by blast
qed

lemma lower_bundle_followup_intent:
  "first_match intent_patterns (lower bundle_followup_text) = Some ''bundle_request''"
  unfolding lower_bundle_followup
  by (simp add: intent_patterns_def any_in_def)

theorem followup_unknown_raises_witness:
  "active_workflows new_orchestrator ''req-404'' = None
   \<and> fst (handle_followup_request demo_think new_orchestrator ''req-404'' bundle_followup_text) =
        Inl (PyExn ''ValueError'' ''Workflow req-404 not found'')
   \<and> active_workflows demo_orchestrator ''req-1'' \<noteq> None
   \<and> (\<exists>response. fst (handle_followup_request demo_think demo_orchestrator ''req-1''
                         bundle_followup_text) = Inr response)
   \<and> fst (handle_followup_request cancelled_think demo_orchestrator ''req-1''
              bundle_followup_text) = Inl (PyBaseExn ''CancelledError'' [])"
proof -
  have a: "active_workflows new_orchestrator ''req-404'' = None"
    by (simp add: new_orchestrator_def)
  have b: "active_workflows demo_orchestrator ''req-1'' \<noteq> None"
    by (simp add: demo_orchestrator_def)
  have ok: "\<forall>a c g e. fst (demo_think a c g) = Inl e \<longrightarrow> is_exception e"
    by (auto simp add: demo_think_def split: if_splits)
  from followup_unknown_raises [of new_orchestrator "''req-404''" demo_think bundle_followup_text] a
  have c: "fst (handle_followup_request demo_think new_orchestrator ''req-404'' bundle_followup_text) =
        Inl (PyExn ''ValueError'' ''Workflow req-404 not found'')"
    by simp
  from followup_unknown_raises [of demo_orchestrator "''req-1''" demo_think bundle_followup_text] b ok
  have d: "\<exists>response. fst (handle_followup_request demo_think demo_orchestrator ''req-1''
                         bundle_followup_text) = Inr response"
    by blast
  have e: "fst (handle_followup_request cancelled_think demo_orchestrator ''req-1''
              bundle_followup_text) = Inl (PyBaseExn ''CancelledError'' [])"
    by (simp add: handle_followup_request_def followup_try_body_def demo_orchestrator_def
        new_orchestrator_def Let_def analyze_followup_intent_def lower_bundle_followup_intent
        lookup_or_raise_def agent_routing_def goal_mapping_def then_do_def registry_lookup_def
        agent_registry_keys_def cancelled_think_def)
  from a b c d e show ?thesis by blast
qed

section \<open>Properties of the agent chain and the synthesis\<close>

subsection \<open>What the loop records\<close>















subsection \<open>What the synthesis reads\<close>















subsection \<open>When the synthesis returns\<close>









subsection \<open>The overall confidence\<close>







subsection \<open>A failed stage and its siblings\<close>




end
